theory Spec2Isabelle
  imports Main "HOL-Library.Log_Nat" "HOL-Library.Sublist"
begin

section \<open>Python values\<close>

text \<open>
  A Python \<open>str\<close> is a sequence of Unicode code points, and \<open>len\<close> counts code
  points. The text of a \<open>wx.TextCtrl\<close> is such a string, so the model does not use
  HOL's byte strings for it: a string is a list of code points, and an ASCII literal of
  the source is written \<open>ascii ''...''\<close>.
\<close>

type_synonym codepoint = nat
type_synonym pystr = "codepoint list"

definition ascii :: "string \<Rightarrow> pystr" where
  "ascii s = map of_char s"

text \<open>
  What a call can raise. \<open>is_Exception\<close> says whether the raised object is an instance
  of the class \<open>Exception\<close> (\<open>ValueError\<close>, \<open>KeyError\<close>, \<open>OSError\<close>, ...); it is
  \<open>False\<close> for \<open>SystemExit\<close>, \<open>KeyboardInterrupt\<close> and \<open>GeneratorExit\<close>, which
  derive from \<open>BaseException\<close> only. \<open>str_of\<close> is \<open>str(e)\<close>.
\<close>

datatype raised = Raised (is_Exception: bool) (str_of: pystr)

section \<open>The query dialog: progress events and the controller state\<close>

text \<open>
  \<open>QueryThreadEvent(id, status=..., percent=...)\<close>. \<open>status\<close> is \<open>None\<close> or a
  string; \<open>percent\<close> is an integer.
\<close>

record query_thread_event =
  status :: "pystr option"
  percent :: int

definition wx_ID_OK :: int where
  "wx_ID_OK = 5100"

definition wx_ID_CANCEL :: int where
  "wx_ID_CANCEL = 5101"

text \<open>
  The state of a \<open>QuerySourceDialog\<close> that the handlers below read and write:
  \<^item> \<open>gauge\<close>: the value of \<open>self.gauge\<close> (its range is 100);
  \<^item> \<open>statusmsg\<close>: the label of \<open>self.statusmsg\<close>;
  \<^item> \<open>ok_enabled\<close>: whether the window with id \<open>wx.ID_OK\<close> is enabled;
  \<^item> \<open>modal_result\<close>: \<open>None\<close> while the dialog is shown modally, \<open>Some id\<close> once
    \<open>EndModal(id)\<close> was called;
  \<^item> \<open>pending\<close>: the events posted with \<open>wx.PostEvent\<close> and not yet handled, oldest
    first;
  \<^item> \<open>threads_started\<close>: how many \<open>QueryThread\<close>s \<open>do_query\<close> has started.
\<close>

record dialog =
  gauge :: int
  statusmsg :: pystr
  ok_enabled :: bool
  modal_result :: "int option"
  pending :: "query_thread_event list"
  threads_started :: nat

definition EndModal :: "int \<Rightarrow> dialog \<Rightarrow> dialog" where
  "EndModal retCode d = d\<lparr>modal_result := Some retCode\<rparr>"

text \<open>\<open>QuerySourceDialog.status\<close>: post an event to the dialog.\<close>

definition dialog_status :: "pystr option \<Rightarrow> int \<Rightarrow> dialog \<Rightarrow> dialog" where
  "dialog_status s p d = d\<lparr>pending := pending d @ [\<lparr>status = s, percent = p\<rparr>]\<rparr>"

text \<open>\<open>QuerySourceDialog.end\<close> and \<open>QuerySourceDialog.fail\<close>. Python does not check
  the type of \<open>reason\<close>, so \<open>fail(None)\<close> is a call the code accepts.\<close>

definition dialog_end :: "dialog \<Rightarrow> dialog" where
  "dialog_end d = dialog_status None 100 d"

definition dialog_fail :: "pystr option \<Rightarrow> dialog \<Rightarrow> dialog" where
  "dialog_fail reason d = dialog_status reason 100 d"

text \<open>\<open>QuerySourceDialog._got_status\<close>, the handler of \<open>EVT_QUERY_THREAD\<close>.\<close>

definition got_status :: "query_thread_event \<Rightarrow> dialog \<Rightarrow> dialog" where
  "got_status event d =
     (let d1 = d\<lparr>gauge := percent event\<rparr>;
          d2 = (case status event of
                  None \<Rightarrow> EndModal wx_ID_OK d1
                | Some s \<Rightarrow> d1\<lparr>statusmsg := s\<rparr>)
      in if percent event = 100 then d2\<lparr>ok_enabled := True\<rparr> else d2)"

text \<open>The event loop hands the oldest pending event to the handler.\<close>

definition dispatch :: "dialog \<Rightarrow> dialog" where
  "dispatch d =
     (case pending d of
        [] \<Rightarrow> d
      | event # rest \<Rightarrow> got_status event (d\<lparr>pending := rest\<rparr>))"

section \<open>The query worker\<close>

text \<open>
  A source provider's \<open>do_fetch(status, params)\<close> is outside this module. What the
  worker sees of one call is the sequence of calls the provider makes on the status
  object it was given (the \<open>QueryThread\<close> itself), and then either a return or a raise.
\<close>

datatype sink_call =
    Send_status "pystr option" int
  | Send_end
  | Send_fail "pystr option"

record fetch_behaviour =
  calls :: "sink_call list"
  raises :: "raised option"

text \<open>\<open>QueryThread.send_status\<close>, \<open>send_end\<close> and \<open>send_fail\<close>.\<close>

fun send :: "sink_call \<Rightarrow> dialog \<Rightarrow> dialog" where
  "send (Send_status s p) d = dialog_status s p d"
| "send Send_end d = dialog_end d"
| "send (Send_fail reason) d = dialog_fail reason d"

text \<open>
  The \<open>except Exception as e\<close> clause of \<open>QueryThread.run\<close>: an instance of
  \<open>Exception\<close> is turned into \<open>send_fail('Failed: %s' % str(e))\<close>; anything else is
  not matched by the clause and leaves \<open>run\<close>.
\<close>

definition except_Exception :: "raised \<Rightarrow> dialog \<Rightarrow> raised + dialog" where
  "except_Exception e d =
     (if is_Exception e
      then Inr (send (Send_fail (Some (ascii ''Failed: '' @ str_of e))) d)
      else Inl e)"

text \<open>
  \<open>QueryThread.run\<close>. \<open>get_params\<close> is the outcome of \<open>query_dialog.get_params()\<close>,
  which is evaluated first and inside the \<open>try\<close>; \<open>do_fetch\<close> is the provider. The
  result is \<open>Inl e\<close> when \<open>e\<close> propagates out of \<open>run\<close>.
\<close>

definition run :: "raised + 'p \<Rightarrow> ('p \<Rightarrow> fetch_behaviour) \<Rightarrow> dialog \<Rightarrow> raised + dialog" where
  "run get_params do_fetch d =
     (case get_params of
        Inl e \<Rightarrow> except_Exception e d
      | Inr params \<Rightarrow>
          (let b = do_fetch params;
               d' = fold send (calls b) d
           in case raises b of
                None \<Rightarrow> Inr d'
              | Some e \<Rightarrow> except_Exception e d'))"

section \<open>Submitting: the validation walk and the button handler\<close>

text \<open>
  A window of the dialog's widget tree. \<open>validates\<close> is what the window's own
  \<open>Validate()\<close> returns when it is called; \<open>ident\<close> names the window, so that the walk
  can record which windows it asked.
\<close>

datatype window = Window (ident: nat) (validates: bool) (children: "window list")

text \<open>
  \<open>QuerySourceDialog._call_validations\<close>. The result is the returned boolean and the
  windows whose \<open>Validate()\<close> was called, in call order. The recursive call on a child
  is made for its effects only: the source does not use what it returns.
\<close>

fun call_validations :: "window \<Rightarrow> bool \<times> nat list"
  and for_children :: "window list \<Rightarrow> bool \<times> nat list" where
  "call_validations (Window i v cs) = for_children cs"
| "for_children [] = (True, [])"
| "for_children (child # rest) =
     (if \<not> validates child then (False, [ident child])
      else let below = call_validations child;
               after = for_children rest
           in (fst after, ident child # snd below @ snd after))"

text \<open>\<open>QuerySourceDialog.do_query\<close>: \<open>QueryThread(self, self.result_radio).start()\<close>.\<close>

definition do_query :: "dialog \<Rightarrow> dialog" where
  "do_query d = d\<lparr>threads_started := Suc (threads_started d)\<rparr>"

text \<open>
  \<open>QuerySourceDialog._button\<close>. \<open>self_window\<close> is the dialog as the root of the
  widget tree, \<open>id'\<close> the id of the button that was pressed.
\<close>

definition button :: "window \<Rightarrow> int \<Rightarrow> dialog \<Rightarrow> dialog" where
  "button self_window id' d =
     (if id' = wx_ID_OK then
        (if \<not> fst (call_validations self_window) then d
         else do_query (d\<lparr>ok_enabled := False\<rparr>))
      else EndModal id' d)"


section \<open>Python's string predicates and number formatting\<close>

text \<open>
  \<open>str.isdigit\<close> and \<open>float\<close> are builtins that read the Unicode character database
  of the interpreter. The tables below are those of Unicode 15 (CPython 3.12 and 3.13).

  \<open>decimal_zeros\<close> lists the digit zero of every block of decimal digits (general
  category \<open>Nd\<close>); the ten digits of a block are consecutive code points. These are the
  characters with a decimal value (\<open>Py_UNICODE_TODECIMAL\<close>).
\<close>

definition decimal_zeros :: "codepoint list" where
  "decimal_zeros =
     [0x30, 0x660, 0x6F0, 0x7C0, 0x966, 0x9E6, 0xA66, 0xAE6, 0xB66, 0xBE6, 0xC66, 0xCE6,
      0xD66, 0xDE6, 0xE50, 0xED0, 0xF20, 0x1040, 0x1090, 0x17E0, 0x1810, 0x1946, 0x19D0,
      0x1A80, 0x1A90, 0x1B50, 0x1BB0, 0x1C40, 0x1C50, 0xA620, 0xA8D0, 0xA900, 0xA9D0,
      0xA9F0, 0xAA50, 0xABF0, 0xFF10,
      0x104A0, 0x10D30, 0x11066, 0x110F0, 0x11136, 0x111D0, 0x112F0, 0x11450, 0x114D0,
      0x11650, 0x116C0, 0x11730, 0x118E0, 0x11950, 0x11C50, 0x11D50, 0x11DA0, 0x11F50,
      0x16A60, 0x16AC0, 0x16B50, 0x1D7CE, 0x1D7D8, 0x1D7E2, 0x1D7EC, 0x1D7F6, 0x1E140,
      0x1E2F0, 0x1E4F0, 0x1E950, 0x1FBF0]"

definition py_todecimal :: "codepoint \<Rightarrow> nat option" where
  "py_todecimal c =
     (case List.find (\<lambda>z. z \<le> c \<and> c < z + 10) decimal_zeros of
        None \<Rightarrow> None
      | Some z \<Rightarrow> Some (c - z))"

text \<open>
  The characters that are digits without being decimal digits (numeric type \<open>Digit\<close>):
  superscripts and subscripts, circled and parenthesised digits and the like, as
  inclusive ranges.
\<close>

definition other_digit_ranges :: "(codepoint \<times> codepoint) list" where
  "other_digit_ranges =
     [(0xB2, 0xB3), (0xB9, 0xB9), (0x1369, 0x1371), (0x19DA, 0x19DA), (0x2070, 0x2070),
      (0x2074, 0x2079), (0x2080, 0x2089), (0x2460, 0x2468), (0x2474, 0x247C),
      (0x2488, 0x2490), (0x24EA, 0x24EA), (0x24F5, 0x24FD), (0x24FF, 0x24FF),
      (0x2776, 0x277E), (0x2780, 0x2788), (0x278A, 0x2792), (0x10A40, 0x10A43),
      (0x10E60, 0x10E68), (0x11052, 0x1105A), (0x1F100, 0x1F10A)]"

text \<open>\<open>Py_UNICODE_ISDIGIT\<close>, and \<open>str.isdigit\<close>: every character is a digit and there is
  at least one character.\<close>

definition py_isdigit_char :: "codepoint \<Rightarrow> bool" where
  "py_isdigit_char c \<longleftrightarrow>
     py_todecimal c \<noteq> None \<or> list_ex (\<lambda>r. fst r \<le> c \<and> c \<le> snd r) other_digit_ranges"

definition str_isdigit :: "pystr \<Rightarrow> bool" where
  "str_isdigit s \<longleftrightarrow> s \<noteq> [] \<and> list_all py_isdigit_char s"

text \<open>The ten ASCII digits, for comparison.\<close>

definition is_ascii_digit :: "codepoint \<Rightarrow> bool" where
  "is_ascii_digit c \<longleftrightarrow> 48 \<le> c \<and> c \<le> 57"

text \<open>\<open>Py_UNICODE_ISSPACE\<close> beyond ASCII, and the ASCII \<open>Py_ISSPACE\<close>.\<close>

definition py_unicode_isspace :: "codepoint \<Rightarrow> bool" where
  "py_unicode_isspace c \<longleftrightarrow>
     c \<in> set [0x85, 0xA0, 0x1680, 0x2028, 0x2029, 0x202F, 0x205F, 0x3000]
     \<or> (0x2000 \<le> c \<and> c \<le> 0x200A)"

definition Py_ISSPACE :: "codepoint \<Rightarrow> bool" where
  "Py_ISSPACE c \<longleftrightarrow> (9 \<le> c \<and> c \<le> 13) \<or> c = 32"

text \<open>\<open>str(n)\<close> and \<open>'%i' % n\<close> for an integer: decimal digits, with a minus sign.\<close>

function nat_digits :: "nat \<Rightarrow> pystr" where
  "nat_digits n = (if n < 10 then [48 + n] else nat_digits (n div 10) @ [48 + n mod 10])"
  by pat_completeness auto
termination
  by (relation "measure id") auto

definition str_int :: "int \<Rightarrow> pystr" where
  "str_int i = (if i < 0 then 45 # nat_digits (nat (- i)) else nat_digits (nat i))"

section \<open>Python's \<open>float\<close> of a string\<close>

text \<open>
  A value of Python's \<open>float\<close> (IEEE 754 binary64): a finite value, given by the
  rational number it stands for (the two zeros are not told apart: they compare equal),
  an infinity, or a NaN.
\<close>

datatype pyfloat = Finite rat | PosInf | NegInf | NaN

text \<open>\<open>v >= m\<close> and \<open>v <= m\<close> for a float \<open>v\<close> and an integer \<open>m\<close>: Python compares
  the exact values; every comparison with a NaN is false.\<close>

fun float_ge :: "pyfloat \<Rightarrow> int \<Rightarrow> bool" where
  "float_ge (Finite q) m = (of_int m \<le> q)"
| "float_ge PosInf m = True"
| "float_ge NegInf m = False"
| "float_ge NaN m = False"

fun float_le :: "pyfloat \<Rightarrow> int \<Rightarrow> bool" where
  "float_le (Finite q) m = (q \<le> of_int m)"
| "float_le PosInf m = False"
| "float_le NegInf m = True"
| "float_le NaN m = False"

text \<open>
  Rounding to binary64, to nearest with ties to even. \<open>round_half_even n d\<close> is the
  integer nearest to \<open>n / d\<close>. \<open>binary_exponent n d\<close> is \<open>\<lfloor>log\<^sub>2 (n / d)\<rfloor>\<close> for positive
  \<open>n\<close> and \<open>d\<close>. A positive \<open>n / d\<close> with binary exponent \<open>e\<close> is rounded to a multiple
  of \<open>2 ^ (max e (-1022) - 52)\<close>; a result of \<open>2 ^ 1024\<close> or more is an infinity.
\<close>

definition round_half_even :: "nat \<Rightarrow> nat \<Rightarrow> nat" where
  "round_half_even n d =
     (let q = n div d; r = n mod d
      in if 2 * r < d then q
         else if d < 2 * r then q + 1
         else if even q then q else q + 1)"

definition pow2 :: "int \<Rightarrow> rat" where
  "pow2 k = (if 0 \<le> k then 2 ^ nat k else 1 / 2 ^ nat (- k))"

definition binary_exponent :: "nat \<Rightarrow> nat \<Rightarrow> int" where
  "binary_exponent n d =
     (let k = int (floorlog 2 n) - int (floorlog 2 d)
      in if d * 2 ^ nat k \<le> n * 2 ^ nat (- k) then k else k - 1)"

definition round_binary64 :: "bool \<Rightarrow> nat \<Rightarrow> nat \<Rightarrow> pyfloat" where
  "round_binary64 negative n d =
     (if n = 0 then Finite 0
      else
        let s = max (binary_exponent n d) (- 1022) - 52;
            m = round_half_even (n * 2 ^ nat (- s)) (d * 2 ^ nat s);
            v = of_nat m * pow2 s
        in if 2 ^ 1024 \<le> v then (if negative then NegInf else PosInf)
           else Finite (if negative then - v else v))"

text \<open>
  The string is first brought to ASCII (\<open>_PyUnicode_TransformDecimalAndSpaceToASCII\<close>):
  a non-ASCII space becomes a blank, a non-ASCII decimal digit its ASCII digit, and
  any other non-ASCII character makes the conversion fail.
\<close>

fun to_ascii :: "pystr \<Rightarrow> pystr option" where
  "to_ascii [] = Some []"
| "to_ascii (c # cs) =
     (if c < 127 then map_option ((#) c) (to_ascii cs)
      else if py_unicode_isspace c then map_option ((#) 32) (to_ascii cs)
      else case py_todecimal c of
             None \<Rightarrow> None
           | Some v \<Rightarrow> map_option ((#) (48 + v)) (to_ascii cs))"

text \<open>Leading and trailing ASCII white space is dropped.\<close>

definition strip :: "pystr \<Rightarrow> pystr" where
  "strip s = rev (dropWhile Py_ISSPACE (rev (dropWhile Py_ISSPACE s)))"

text \<open>
  Underscores (\<open>_Py_string_to_number_with_underscores\<close>): an underscore is allowed
  only right after a digit and right before a digit, and is then dropped. \<open>prev\<close> is
  the character before the rest of the string (0 at the start).
\<close>

fun drop_underscores :: "codepoint \<Rightarrow> pystr \<Rightarrow> pystr option" where
  "drop_underscores prev [] = (if prev = 95 then None else Some [])"
| "drop_underscores prev (c # cs) =
     (if c = 95 then
        (if is_ascii_digit prev then drop_underscores c cs else None)
      else if prev = 95 \<and> \<not> is_ascii_digit c then None
      else map_option ((#) c) (drop_underscores c cs))"

text \<open>The value of a string of ASCII digits, and ASCII lower case.\<close>

definition digits_value :: "pystr \<Rightarrow> nat" where
  "digits_value ds = foldl (\<lambda>a c. 10 * a + (c - 48)) 0 ds"

definition ascii_lower :: "pystr \<Rightarrow> pystr" where
  "ascii_lower s = map (\<lambda>c. if 65 \<le> c \<and> c \<le> 90 then c + 32 else c) s"

text \<open>An optional sign: whether it is a minus, and what follows it.\<close>

fun split_sign :: "pystr \<Rightarrow> bool \<times> pystr" where
  "split_sign [] = (False, [])"
| "split_sign (c # cs) =
     (if c = 45 then (True, cs) else if c = 43 then (False, cs) else (False, c # cs))"

text \<open>
  An unsigned decimal number: digits with at most one point and at least one digit,
  then possibly an exponent (\<open>e\<close> or \<open>E\<close>, an optional sign, at least one digit), and
  nothing else. The result is the integer \<open>m\<close> of all the digits and the power \<open>x\<close> of
  ten with which the number is \<open>m * 10 ^ x\<close>.
\<close>

definition parse_number :: "pystr \<Rightarrow> (nat \<times> int) option" where
  "parse_number s =
     (let ip = takeWhile is_ascii_digit s;
          r1 = dropWhile is_ascii_digit s;
          fp = (case r1 of [] \<Rightarrow> [] | c # t \<Rightarrow> if c = 46 then takeWhile is_ascii_digit t else []);
          r2 = (case r1 of [] \<Rightarrow> [] | c # t \<Rightarrow> if c = 46 then dropWhile is_ascii_digit t else r1);
          m = digits_value (ip @ fp)
      in if ip = [] \<and> fp = [] then None
         else case r2 of
                [] \<Rightarrow> Some (m, - int (length fp))
              | c # t \<Rightarrow>
                  if c = 101 \<or> c = 69 then
                    (let sd = split_sign t
                     in if snd sd \<noteq> [] \<and> list_all is_ascii_digit (snd sd)
                        then Some (m, (if fst sd then - int (digits_value (snd sd))
                                       else int (digits_value (snd sd))) - int (length fp))
                        else None)
                  else None)"

text \<open>
  \<open>float(s)\<close> for a string \<open>s\<close>: \<open>None\<close> stands for \<open>ValueError\<close>. After the
  conversion to ASCII, the stripping and the underscores, the string is an optional
  sign followed by \<open>inf\<close>, \<open>infinity\<close> or \<open>nan\<close> in any case, or by a decimal
  number, whose exact value is rounded to binary64.
\<close>

definition py_float :: "pystr \<Rightarrow> pyfloat option" where
  "py_float s =
     (case to_ascii s of
        None \<Rightarrow> None
      | Some a \<Rightarrow>
          (case drop_underscores 0 (strip a) of
             None \<Rightarrow> None
           | Some t \<Rightarrow>
               (let sb = split_sign t; word = ascii_lower (snd sb)
                in if word = ascii ''inf'' \<or> word = ascii ''infinity''
                   then Some (if fst sb then NegInf else PosInf)
                   else if word = ascii ''nan'' then Some NaN
                   else case parse_number (snd sb) of
                          None \<Rightarrow> None
                        | Some (m, x) \<Rightarrow>
                            Some (round_binary64 (fst sb) (m * 10 ^ nat x) (10 ^ nat (- x))))))"

section \<open>Text fields and their validators\<close>

text \<open>
  What the validators read and write of a \<open>wx.TextCtrl\<close>: its text, its background
  colour (the system's window colour, or \<open>'pink'\<close>) and whether it has the keyboard
  focus.
\<close>

datatype colour = SYS_COLOUR_WINDOW | Pink

record textctrl =
  contents :: pystr
  background :: colour
  has_focus :: bool

text \<open>
  The outcome of a \<open>Validate\<close> call: what it returns, the text control afterwards, and
  the texts of the message boxes it showed. The translation function \<open>_\<close> is taken as
  the identity (no message catalogue is loaded).
\<close>

record validated =
  returned :: bool
  ctrl :: textctrl
  message_boxes :: "pystr list"

text \<open>The class attributes of \<open>NumberValidator\<close> and of its three subclasses
  (\<open>MIN\<close> and \<open>MAX\<close> carry a prime, the plain names being notation of HOL).\<close>

record number_validator =
  THING :: pystr
  MIN' :: int
  MAX' :: int
  OPTIONAL :: bool

definition NumberValidator :: number_validator where
  "NumberValidator = \<lparr>THING = ascii ''Number'', MIN' = 0, MAX' = 1, OPTIONAL = True\<rparr>"

definition LatValidator :: number_validator where
  "LatValidator = NumberValidator\<lparr>THING := ascii ''Latitude'', MIN' := - 90, MAX' := 90\<rparr>"



text \<open>
  The two messages, after \<open>msg % catalog\<close>. The catalogue's \<open>'value'\<close> is the
  validator's \<open>THING\<close>, so \<open>%(value)s\<close> prints the name of the field.
\<close>

definition ValueError_msg :: "number_validator \<Rightarrow> pystr" where
  "ValueError_msg v = ascii ''Invalid '' @ THING v @ ascii '' (use decimal degrees)''"

definition AssertionError_msg :: "number_validator \<Rightarrow> pystr" where
  "AssertionError_msg v =
     THING v @ ascii '' must be between '' @ str_int (MIN' v) @ ascii '' and '' @ str_int (MAX' v)"

text \<open>The end of \<open>NumberValidator.Validate\<close>, reached from either \<open>except\<close> clause.\<close>

definition invalid_entry :: "pystr \<Rightarrow> textctrl \<Rightarrow> validated" where
  "invalid_entry msg textctrl =
     \<lparr>returned = False,
      ctrl = textctrl\<lparr>has_focus := True, background := Pink\<rparr>,
      message_boxes = [msg]\<rparr>"

text \<open>\<open>NumberValidator.Validate\<close>. The \<open>assert\<close> is executed (the interpreter does
  not run with \<open>-O\<close>): a value outside the bounds, a NaN included, raises
  \<open>AssertionError\<close>.\<close>

definition NumberValidator_Validate :: "number_validator \<Rightarrow> textctrl \<Rightarrow> validated" where
  "NumberValidator_Validate v textctrl =
     (let strvalue = contents textctrl
      in if strvalue = [] \<and> OPTIONAL v
         then \<lparr>returned = True, ctrl = textctrl, message_boxes = []\<rparr>
         else case py_float strvalue of
                None \<Rightarrow> invalid_entry (ValueError_msg v) textctrl
              | Some x \<Rightarrow>
                  if float_ge x (MIN' v) \<and> float_le x (MAX' v)
                  then \<lparr>returned = True,
                        ctrl = textctrl\<lparr>background := SYS_COLOUR_WINDOW\<rparr>,
                        message_boxes = []\<rparr>
                  else invalid_entry (AssertionError_msg v) textctrl)"

text \<open>\<open>NumberValidator._colorchange\<close>, which \<open>SetWindow\<close> binds to \<open>wx.EVT_TEXT\<close>.\<close>

definition colorchange :: "textctrl \<Rightarrow> textctrl" where
  "colorchange textctrl = textctrl\<lparr>background := SYS_COLOUR_WINDOW\<rparr>"

text \<open>\<open>ZipValidator.Validate\<close>.\<close>

definition ZipValidator_Validate :: "textctrl \<Rightarrow> validated" where
  "ZipValidator_Validate textctrl =
     (let strvalue = contents textctrl
      in if length strvalue = 5 \<and> str_isdigit strvalue
         then \<lparr>returned = True, ctrl = textctrl, message_boxes = []\<rparr>
         else \<lparr>returned = False, ctrl = textctrl,
               message_boxes = [ascii ''Invalid ZIP code'']\<rparr>)"

text \<open>
  The validator attached to a field, the field's \<open>Validate\<close>, and what happens when
  the content of the field changes to \<open>new\<close>: the control emits \<open>wx.EVT_TEXT\<close>, which
  runs \<open>_colorchange\<close> for a \<open>NumberValidator\<close>; \<open>ZipValidator\<close> does not override
  \<open>SetWindow\<close> and binds nothing.
\<close>

datatype validator = Number number_validator | Zip

fun Validate :: "validator \<Rightarrow> textctrl \<Rightarrow> validated" where
  "Validate (Number v) textctrl = NumberValidator_Validate v textctrl"
| "Validate Zip textctrl = ZipValidator_Validate textctrl"

fun text_changed :: "validator \<Rightarrow> pystr \<Rightarrow> textctrl \<Rightarrow> textctrl" where
  "text_changed (Number v) new textctrl = colorchange (textctrl\<lparr>contents := new\<rparr>)"
| "text_changed Zip new textctrl = textctrl\<lparr>contents := new\<rparr>"

section \<open>Choice controls and the dependent selectors\<close>

text \<open>The Python errors that the selector code can raise.\<close>

datatype py_error = KeyError | IndexError | AttributeError | TypeError

text \<open>
  A \<open>wx.Choice\<close>: its items and the index of the selected one (\<open>None\<close> for
  \<open>wx.NOT_FOUND\<close>). \<open>SetItems\<close> and \<open>Clear\<close> leave nothing selected;
  \<open>SetStringSelection\<close> selects the first item equal to the string and does nothing
  when there is none; \<open>GetStringSelection\<close> is the empty string when nothing is
  selected.
\<close>

record choice =
  items :: "pystr list"
  selection :: "nat option"

fun index_of :: "'a \<Rightarrow> 'a list \<Rightarrow> nat option" where
  "index_of x [] = None"
| "index_of x (y # ys) = (if x = y then Some 0 else map_option Suc (index_of x ys))"

definition SetItems :: "pystr list \<Rightarrow> choice \<Rightarrow> choice" where
  "SetItems xs c = \<lparr>items = xs, selection = None\<rparr>"

definition Clear :: "choice \<Rightarrow> choice" where
  "Clear c = \<lparr>items = [], selection = None\<rparr>"

definition Append :: "pystr \<Rightarrow> choice \<Rightarrow> choice" where
  "Append x c = c\<lparr>items := items c @ [x]\<rparr>"

definition SetStringSelection :: "pystr \<Rightarrow> choice \<Rightarrow> choice" where
  "SetStringSelection s c =
     (case index_of s (items c) of None \<Rightarrow> c | Some i \<Rightarrow> c\<lparr>selection := Some i\<rparr>)"

definition GetStringSelection :: "choice \<Rightarrow> pystr" where
  "GetStringSelection c =
     (case selection c of
        None \<Rightarrow> []
      | Some i \<Rightarrow> if i < length (items c) then items c ! i else [])"

subsection \<open>RepeaterBook: country and state\<close>

text \<open>
  \<open>RepeaterBookQueryDialog._state_selected\<close>. \<open>STATES\<close> is the dictionary
  \<open>repeaterbook.STATES\<close> (country to list of states), \<open>conf_state\<close> what
  \<open>CONF.get('state', 'repeaterbook')\<close> returns. The result is the state control
  \<open>self._state\<close> afterwards, or the \<open>KeyError\<close> of the dictionary lookup.
\<close>

definition state_selected ::
    "(pystr \<rightharpoonup> pystr list) \<Rightarrow> pystr option \<Rightarrow> choice \<Rightarrow> choice \<Rightarrow> py_error + choice" where
  "state_selected STATES conf_state country_ctrl state_ctrl =
     (let country = GetStringSelection country_ctrl
      in case STATES country of
           None \<Rightarrow> Inl KeyError
         | Some states \<Rightarrow>
             (let state_ctrl' = SetItems states state_ctrl
              in case conf_state of
                   None \<Rightarrow> Inr state_ctrl'
                 | Some prev \<Rightarrow>
                     if prev \<noteq> [] \<and> prev \<in> set states
                     then Inr (SetStringSelection prev state_ctrl')
                     else Inr state_ctrl'))"

subsection \<open>RadioReference: province and county\<close>

text \<open>
  A row of \<open>radioreference.CA_COUNTIES\<close>; the code reads its second, third and fourth
  entry as province name, county id and county name. \<open>radioreference.CA_PROVINCES\<close>
  is a dictionary from province name to province id, kept here in iteration order.
\<close>

record county_row =
  row_0 :: int
  row_prov :: pystr
  row_cid :: int
  row_county :: pystr

type_synonym provinces = "(pystr \<times> int) list"

text \<open>A Python value that is a string or an integer (\<open>default_county\<close> can be \<open>0\<close>).\<close>

datatype pyobj = PyStr pystr | PyInt int

text \<open>
  The part of an \<open>RRQueryDialog\<close> that the selector code uses. \<open>conf_province\<close> and
  \<open>conf_county\<close> are the values stored under \<open>'province'\<close> and \<open>'county'\<close> in the
  \<open>'radioreference'\<close> section of \<open>CONF\<close>, as \<open>CONF.get\<close> returns them;
  \<open>ca_county_id\<close>, \<open>default_prov\<close> and \<open>default_county\<close> are \<open>None\<close> while the
  attribute does not exist.
\<close>

record rr_dialog =
  provchoice :: choice
  countychoice :: choice
  ca_county_id :: "int option"
  conf_province :: "pystr option"
  conf_county :: "pystr option"
  default_prov :: "pystr option"
  default_county :: "pyobj option"
  loginbutton_enabled :: bool

text \<open>\<open>CONF.set_int\<close> stores the integer as its decimal string.\<close>

definition set_int_province :: "int \<Rightarrow> rr_dialog \<Rightarrow> rr_dialog" where
  "set_int_province i s = s\<lparr>conf_province := Some (str_int i)\<rparr>"

definition set_int_county :: "int \<Rightarrow> rr_dialog \<Rightarrow> rr_dialog" where
  "set_int_county i s = s\<lparr>conf_county := Some (str_int i)\<rparr>"

text \<open>\<open>RRQueryDialog._selected_county\<close>: the id of the first row of the whole table
  whose county name equals \<open>chosencounty\<close>, or 0.\<close>

definition selected_county :: "county_row list \<Rightarrow> pyobj \<Rightarrow> rr_dialog \<Rightarrow> rr_dialog" where
  "selected_county CA_COUNTIES chosencounty s =
     (let cid = (case List.find (\<lambda>row. PyStr (row_county row) = chosencounty) CA_COUNTIES of
                   None \<Rightarrow> 0
                 | Some row \<Rightarrow> row_cid row)
      in set_int_county cid (s\<lparr>ca_county_id := Some cid\<rparr>))"

text \<open>
  \<open>RRQueryDialog._selected_province\<close>. The first loop stores the id of the chosen
  province, if the dictionary has it; the second fills the county control; the last
  line takes \<open>GetItems()[0]\<close>, which raises \<open>IndexError\<close> on an empty list.
\<close>

definition selected_province ::
    "provinces \<Rightarrow> county_row list \<Rightarrow> pystr \<Rightarrow> rr_dialog \<Rightarrow> py_error + rr_dialog" where
  "selected_province CA_PROVINCES CA_COUNTIES chosenprov s =
     (let s1 = (case List.find (\<lambda>p. fst p = chosenprov) CA_PROVINCES of
                  None \<Rightarrow> s
                | Some p \<Rightarrow> set_int_province (snd p) s);
          s2 = s1\<lparr>countychoice := Clear (countychoice s1)\<rparr>;
          s3 = s2\<lparr>countychoice :=
                    fold (\<lambda>x c. if row_prov x = chosenprov then Append (row_county x) c else c)
                      CA_COUNTIES (countychoice s2)\<rparr>
      in case items (countychoice s3) of
           [] \<Rightarrow> Inl IndexError
         | first # others \<Rightarrow> Inr (selected_county CA_COUNTIES (PyStr first) s3))"

text \<open>
  \<open>RRQueryDialog.getconfdefaults\<close>. In both loops the \<open>else\<close> belongs to the \<open>if\<close>
  inside the loop: every row that does not match overwrites the default with the
  fallback, and the first row that matches sets it and ends the loop. An empty
  table leaves the attribute as it was.
\<close>

fun scan_provinces :: "pystr option \<Rightarrow> provinces \<Rightarrow> pystr option \<Rightarrow> pystr option" where
  "scan_provinces code [] current = current"
| "scan_provinces code (p # rest) current =
     (if code = Some (str_int (snd p)) then Some (fst p)
      else scan_provinces code rest (Some (ascii ''BC'')))"

fun scan_counties :: "pystr option \<Rightarrow> county_row list \<Rightarrow> pyobj option \<Rightarrow> pyobj option" where
  "scan_counties code [] current = current"
| "scan_counties code (row # rest) current =
     (if code = Some (str_int (row_cid row)) then Some (PyStr (row_county row))
      else scan_counties code rest (Some (PyInt 0)))"

definition getconfdefaults :: "provinces \<Rightarrow> county_row list \<Rightarrow> rr_dialog \<Rightarrow> rr_dialog" where
  "getconfdefaults CA_PROVINCES CA_COUNTIES s =
     s\<lparr>default_prov := scan_provinces (conf_province s) CA_PROVINCES (default_prov s),
       default_county := scan_counties (conf_county s) CA_COUNTIES (default_county s)\<rparr>"

text \<open>
  \<open>RRQueryDialog.populateprov\<close>. The keys of \<open>CA_PROVINCES\<close> are strings, so
  \<open>str(x)\<close> is the key itself. Reading an attribute that was never assigned raises
  \<open>AttributeError\<close>; \<open>SetStringSelection\<close> takes a string, and wxPython raises
  \<open>TypeError\<close> when it is handed the integer \<open>0\<close>.
\<close>

definition populateprov :: "provinces \<Rightarrow> county_row list \<Rightarrow> rr_dialog \<Rightarrow> py_error + rr_dialog" where
  "populateprov CA_PROVINCES CA_COUNTIES s =
     (let s1 = s\<lparr>provchoice := SetItems (map fst CA_PROVINCES) (provchoice s)\<rparr>;
          s2 = getconfdefaults CA_PROVINCES CA_COUNTIES s1
      in case default_prov s2 of
           None \<Rightarrow> Inl AttributeError
         | Some prov \<Rightarrow>
             (case selected_province CA_PROVINCES CA_COUNTIES prov
                     (s2\<lparr>provchoice := SetStringSelection prov (provchoice s2)\<rparr>) of
                Inl e \<Rightarrow> Inl e
              | Inr s3 \<Rightarrow>
                  (case default_county s3 of
                     None \<Rightarrow> Inl AttributeError
                   | Some (PyInt i) \<Rightarrow> Inl TypeError
                   | Some (PyStr county) \<Rightarrow>
                       Inr ((selected_county CA_COUNTIES (PyStr county)
                               (s3\<lparr>countychoice := SetStringSelection county (countychoice s3)\<rparr>))
                            \<lparr>loginbutton_enabled := False\<rparr>))))"
section \<open>Sample inputs\<close>

text \<open>A dialog that was just shown: nothing posted, no thread started, OK enabled.\<close>

definition fresh_dialog :: dialog where
  "fresh_dialog =
     \<lparr>gauge = 0, statusmsg = [], ok_enabled = True, modal_result = None,
      pending = [], threads_started = 0\<rparr>"

text \<open>A provider that reports progress once and then raises \<open>OSError('timed out')\<close>.\<close>

definition timing_out_provider :: "unit \<Rightarrow> fetch_behaviour" where
  "timing_out_provider params =
     \<lparr>calls = [Send_status (Some (ascii ''Fetching'')) 40],
      raises = Some (Raised True (ascii ''timed out''))\<rparr>"

text \<open>A provider whose fetch calls \<open>sys.exit()\<close>: \<open>SystemExit\<close> is not an \<open>Exception\<close>.\<close>

definition exiting_provider :: "unit \<Rightarrow> fetch_behaviour" where
  "exiting_provider params = \<lparr>calls = [], raises = Some (Raised False [])\<rparr>"


text \<open>A text field holding \<open>s\<close>, with the window colour and without the focus.\<close>

definition field_with :: "pystr \<Rightarrow> textctrl" where
  "field_with s = \<lparr>contents = s, background = SYS_COLOUR_WINDOW, has_focus = False\<rparr>"


text \<open>A \<open>wx.Choice\<close> with the given items and nothing selected, and one with item
  number \<open>i\<close> selected.\<close>

definition choice_of :: "pystr list \<Rightarrow> choice" where
  "choice_of xs = \<lparr>items = xs, selection = None\<rparr>"

definition choice_at :: "pystr list \<Rightarrow> nat \<Rightarrow> choice" where
  "choice_at xs i = \<lparr>items = xs, selection = Some i\<rparr>"

text \<open>A small \<open>STATES\<close> dictionary and the country control with Canada selected.\<close>

definition sample_STATES :: "pystr \<rightharpoonup> pystr list" where
  "sample_STATES =
     map_of [(ascii ''Canada'', [ascii ''Alberta'', ascii ''Ontario'']),
             (ascii ''Mexico'', [ascii ''Sonora''])]"

definition canada_selected :: choice where
  "canada_selected = choice_at [ascii ''Canada'', ascii ''Mexico''] 0"

text \<open>
  An \<open>RRQueryDialog\<close> as \<open>build_ca\<close> leaves it before any login: both controls hold
  the placeholder, nothing is stored in \<open>CONF\<close>, and the attributes that only
  \<open>getconfdefaults\<close> and \<open>_selected_county\<close> assign do not exist yet.
\<close>

definition fresh_rr_dialog :: rr_dialog where
  "fresh_rr_dialog =
     \<lparr>provchoice = choice_of [ascii ''Log in First''],
      countychoice = choice_of [ascii ''Log in First''],
      ca_county_id = None, conf_province = None, conf_county = None,
      default_prov = None, default_county = None, loginbutton_enabled = True\<rparr>"

text \<open>Two provinces and three county rows; Ontario has Algoma (id 10) and Brant
  (id 11), Alberta has no row.\<close>

definition sample_PROVINCES :: provinces where
  "sample_PROVINCES = [(ascii ''AB'', 1), (ascii ''ON'', 9)]"

definition sample_COUNTIES :: "county_row list" where
  "sample_COUNTIES =
     [\<lparr>row_0 = 9, row_prov = ascii ''ON'', row_cid = 10, row_county = ascii ''Algoma''\<rparr>,
      \<lparr>row_0 = 9, row_prov = ascii ''ON'', row_cid = 11, row_county = ascii ''Brant''\<rparr>,
      \<lparr>row_0 = 2, row_prov = ascii ''BC'', row_cid = 20, row_county = ascii ''Cariboo''\<rparr>]"

section \<open>Properties of the controller's event handler\<close>

lemma got_status_None:
  "got_status \<lparr>status = None, percent = p\<rparr> d =
     (if p = 100
      then d\<lparr>gauge := p, modal_result := Some wx_ID_OK, ok_enabled := True\<rparr>
      else d\<lparr>gauge := p, modal_result := Some wx_ID_OK\<rparr>)"
  by (simp add: got_status_def EndModal_def)

lemma got_status_Some:
  "got_status \<lparr>status = Some s, percent = p\<rparr> d =
     (if p = 100
      then d\<lparr>gauge := p, statusmsg := s, ok_enabled := True\<rparr>
      else d\<lparr>gauge := p, statusmsg := s\<rparr>)"
  by (simp add: got_status_def)

lemma pending_send_end:
  "send Send_end d = d\<lparr>pending := pending d @ [\<lparr>status = None, percent = 100\<rparr>]\<rparr>"
  by (simp add: dialog_end_def dialog_status_def)

text \<open>
  C3. The success signal of the worker (\<open>send_end\<close>, that is \<open>QuerySourceDialog.end\<close>)
  posts exactly the event with status \<open>None\<close> and percent 100 and changes nothing else;
  and whenever the handler receives an event whose status is \<open>None\<close>, whatever its
  percent, it sets the gauge to that percent and ends the dialog with \<open>wx.ID_OK\<close>.
  Handled from an empty queue, the success signal therefore closes the dialog as
  accepted with the gauge at 100.
\<close>

theorem success_event_accepts:
  "send Send_end d = d\<lparr>pending := pending d @ [\<lparr>status = None, percent = 100\<rparr>]\<rparr>
   \<and> dialog_end d = d\<lparr>pending := pending d @ [\<lparr>status = None, percent = 100\<rparr>]\<rparr>
   \<and> gauge (got_status \<lparr>status = None, percent = p\<rparr> d') = p
   \<and> modal_result (got_status \<lparr>status = None, percent = p\<rparr> d') = Some wx_ID_OK
   \<and> gauge (dispatch (send Send_end (d\<lparr>pending := []\<rparr>))) = 100
   \<and> modal_result (dispatch (send Send_end (d\<lparr>pending := []\<rparr>))) = Some wx_ID_OK"
proof -
  have sent: "send Send_end d = d\<lparr>pending := pending d @ [\<lparr>status = None, percent = 100\<rparr>]\<rparr>"
    by (rule pending_send_end)
  have posted: "dialog_end d = d\<lparr>pending := pending d @ [\<lparr>status = None, percent = 100\<rparr>]\<rparr>"
    by (simp add: dialog_end_def dialog_status_def)
  have handled: "gauge (got_status \<lparr>status = None, percent = p\<rparr> d') = p"
    "modal_result (got_status \<lparr>status = None, percent = p\<rparr> d') = Some wx_ID_OK"
    by (simp_all add: got_status_None)
  have looped: "dispatch (send Send_end (d\<lparr>pending := []\<rparr>)) =
      got_status \<lparr>status = None, percent = 100\<rparr> (d\<lparr>pending := []\<rparr>)"
    by (simp add: dispatch_def dialog_end_def dialog_status_def)
  have closed: "gauge (dispatch (send Send_end (d\<lparr>pending := []\<rparr>))) = 100"
    "modal_result (dispatch (send Send_end (d\<lparr>pending := []\<rparr>))) = Some wx_ID_OK"
    unfolding looped by (simp_all add: got_status_None)
  show ?thesis
    using sent posted handled closed by blast
qed

text \<open>
  C4. When the handler receives an event with a status that is not \<open>None\<close> and percent
  100, the status line shows that string, the OK button is enabled, and the handler
  does not end the dialog: its modal state is what it was (still open if it was open).
\<close>

theorem failure_event_rearms:
  "statusmsg (got_status \<lparr>status = Some reason, percent = 100\<rparr> d) = reason
   \<and> ok_enabled (got_status \<lparr>status = Some reason, percent = 100\<rparr> d)
   \<and> modal_result (got_status \<lparr>status = Some reason, percent = 100\<rparr> d) = modal_result d
   \<and> modal_result
        (got_status \<lparr>status = Some reason, percent = 100\<rparr> (d\<lparr>modal_result := None\<rparr>)) = None"
  by (simp add: got_status_Some)


section \<open>Properties of the worker\<close>

lemma except_Exception_caught:
  "is_Exception e \<Longrightarrow>
     except_Exception e d =
       Inr (d\<lparr>pending := pending d @
              [\<lparr>status = Some (ascii ''Failed: '' @ str_of e), percent = 100\<rparr>]\<rparr>)"
  by (simp add: except_Exception_def dialog_fail_def dialog_status_def)

text \<open>
  C2, as the code has it. When \<open>get_params()\<close> or the provider's fetch raises an
  instance of \<open>Exception\<close>, \<open>run\<close> returns normally, and the last thing it does is to
  post the event whose status is \<open>'Failed: '\<close> followed by \<open>str(e)\<close> and whose percent
  is 100, after whatever the provider had posted before it raised.
\<close>

theorem run_reports_Exception:
  assumes "is_Exception e"
  shows "run (Inl e) do_fetch d =
           Inr (d\<lparr>pending := pending d @
                  [\<lparr>status = Some (ascii ''Failed: '' @ str_of e), percent = 100\<rparr>]\<rparr>)
       \<and> (raises (do_fetch params) = Some e \<longrightarrow>
            run (Inr params) do_fetch d =
              Inr ((fold send (calls (do_fetch params)) d)
                    \<lparr>pending := pending (fold send (calls (do_fetch params)) d) @
                       [\<lparr>status = Some (ascii ''Failed: '' @ str_of e), percent = 100\<rparr>]\<rparr>))
       \<and> suffix (str_of e) (ascii ''Failed: '' @ str_of e)"
proof (intro conjI impI)
  show "run (Inl e) do_fetch d =
      Inr (d\<lparr>pending := pending d @
             [\<lparr>status = Some (ascii ''Failed: '' @ str_of e), percent = 100\<rparr>]\<rparr>)"
    using assms by (simp add: run_def except_Exception_caught)
next
  assume "raises (do_fetch params) = Some e"
  then show "run (Inr params) do_fetch d =
      Inr ((fold send (calls (do_fetch params)) d)
            \<lparr>pending := pending (fold send (calls (do_fetch params)) d) @
               [\<lparr>status = Some (ascii ''Failed: '' @ str_of e), percent = 100\<rparr>]\<rparr>)"
    using assms by (simp add: run_def Let_def except_Exception_caught)
next
  show "suffix (str_of e) (ascii ''Failed: '' @ str_of e)"
    by (rule suffix_appendI) simp
qed

theorem run_reports_Exception_witness:
  "is_Exception (Raised True (ascii ''timed out''))
   \<and> raises (timing_out_provider ()) = Some (Raised True (ascii ''timed out''))
   \<and> run (Inr ()) timing_out_provider fresh_dialog =
       Inr (fresh_dialog
             \<lparr>pending :=
                [\<lparr>status = Some (ascii ''Fetching''), percent = 40\<rparr>,
                 \<lparr>status = Some (ascii ''Failed: timed out''), percent = 100\<rparr>]\<rparr>)"
proof -
  have e: "is_Exception (Raised True (ascii ''timed out''))"
    by simp
  have r: "raises (timing_out_provider ()) = Some (Raised True (ascii ''timed out''))"
    by (simp add: timing_out_provider_def)
  show ?thesis
    using run_reports_Exception
      [where e = "Raised True (ascii ''timed out'')" and do_fetch = timing_out_provider
         and params = "()" and d = fresh_dialog, OF e] e r
    by (simp add: timing_out_provider_def fresh_dialog_def dialog_status_def ascii_def)
qed

text \<open>
  C2, as the claim states it, fails: \<open>except Exception\<close> does not match an exception
  that derives from \<open>BaseException\<close> only. When the fetch raises \<open>SystemExit\<close>, the
  exception leaves \<open>run\<close> and no event is posted.
\<close>

theorem run_lets_SystemExit_escape:
  "raises (exiting_provider ()) = Some (Raised False [])
   \<and> run (Inr ()) exiting_provider fresh_dialog = Inl (Raised False [])"
  by (simp add: run_def exiting_provider_def except_Exception_def)

section \<open>Properties of the submit path\<close>

lemma for_children_all_valid:
  "list_all validates ws \<Longrightarrow> fst (for_children ws) = True"
  by (induction ws) (simp_all add: Let_def)

lemma for_children_failing_child:
  "\<not> list_all validates ws \<Longrightarrow> fst (for_children ws) = False"
  by (induction ws) (auto simp: Let_def)

text \<open>
  What \<open>_call_validations\<close> returns is decided by the direct children of the window it
  is called on: it is \<open>True\<close> exactly when each of them validates.
\<close>

lemma call_validations_direct_children:
  "fst (call_validations w) = list_all validates (children w)"
  by (cases w) (use for_children_all_valid for_children_failing_child in auto)

lemma button_aborts_on_direct_failure:
  "\<not> list_all validates (children w) \<Longrightarrow> button w wx_ID_OK d = d"
  by (simp add: button_def call_validations_direct_children)

lemma button_submits:
  "list_all validates (children w) \<Longrightarrow>
     button w wx_ID_OK d = d\<lparr>ok_enabled := False, threads_started := Suc (threads_started d)\<rparr>"
  by (simp add: button_def call_validations_direct_children do_query_def)

lemma button_cancel: "button w wx_ID_CANCEL d = d\<lparr>modal_result := Some wx_ID_CANCEL\<rparr>"
  by (simp add: button_def EndModal_def wx_ID_OK_def wx_ID_CANCEL_def)

text \<open>
  C1 at a failing input. The dialog has one child (a notebook, say) that validates,
  and that child has a child (a page with an invalid field) whose \<open>Validate()\<close> returns
  \<open>False\<close>. The walk does call the nested \<open>Validate()\<close> (windows 1 and 2 are asked), but
  the \<open>False\<close> it gets back is dropped: \<open>_call_validations\<close> returns \<open>True\<close>, the OK
  button is disabled and a \<open>QueryThread\<close> is started.
\<close>

theorem nested_failure_does_not_abort:
  "call_validations (Window 0 True [Window 1 True [Window 2 False []]]) = (True, [1, 2])
   \<and> button (Window 0 True [Window 1 True [Window 2 False []]]) wx_ID_OK fresh_dialog =
       fresh_dialog\<lparr>ok_enabled := False, threads_started := 1\<rparr>"
  by (simp add: button_def do_query_def fresh_dialog_def)


section \<open>Evaluating \<open>float\<close> on the inputs used below\<close>

lemmas parse_eval =
  py_float_def ascii_def strip_def Py_ISSPACE_def is_ascii_digit_def parse_number_def
  digits_value_def ascii_lower_def Let_def






















lemma float_abc: "py_float (ascii ''abc'') = None"
  by (simp add: parse_eval)

section \<open>Properties of the numeric validators\<close>





lemma ascii_nonempty: "ascii (c # cs) \<noteq> []"
  by (simp add: ascii_def)



lemma number_failure_marks:
  "\<not> returned (NumberValidator_Validate v t) \<Longrightarrow>
     background (ctrl (NumberValidator_Validate v t)) = Pink
     \<and> has_focus (ctrl (NumberValidator_Validate v t))"
  by (cases "py_float (contents t)")
     (auto simp: NumberValidator_Validate_def invalid_entry_def Let_def split: if_splits)





lemma latitude_abc:
  "\<not> returned (NumberValidator_Validate LatValidator (field_with (ascii ''abc'')))"
  by (simp add: NumberValidator_Validate_def invalid_entry_def field_with_def float_abc
        ascii_nonempty Let_def)





section \<open>Properties of the postal-code validator\<close>

lemma ascii_isdigit_char: "c < 128 \<Longrightarrow> py_isdigit_char c = is_ascii_digit c"
  by (auto simp: py_isdigit_char_def py_todecimal_def decimal_zeros_def other_digit_ranges_def
        is_ascii_digit_def split: option.splits if_splits)

lemma ascii_isdigit_all:
  "list_all (\<lambda>c. c < 128) s \<Longrightarrow> list_all py_isdigit_char s = list_all is_ascii_digit s"
  by (induction s) (simp_all add: ascii_isdigit_char)

lemma zip_valid_iff:
  "returned (ZipValidator_Validate t) \<longleftrightarrow>
     length (contents t) = 5 \<and> list_all py_isdigit_char (contents t)"
  by (auto simp: ZipValidator_Validate_def str_isdigit_def Let_def)

lemma zip_examples:
  "returned (ZipValidator_Validate (field_with (ascii ''12345'')))"
  "\<not> returned (ZipValidator_Validate (field_with (ascii ''1234'')))"
  "\<not> returned (ZipValidator_Validate (field_with (ascii ''123456'')))"
  "\<not> returned (ZipValidator_Validate (field_with (ascii ''1234a'')))"
  by (simp_all add: zip_valid_iff field_with_def ascii_def ascii_isdigit_char
        is_ascii_digit_def)

text \<open>
  C6, as the code has it. The validator accepts a text exactly when it has five
  characters and each of them is a digit in the sense of \<open>str.isdigit\<close>. For a text of
  ASCII characters that means five ASCII digits: \<open>12345\<close> is accepted, and \<open>1234\<close>,
  \<open>123456\<close> and \<open>1234a\<close> are refused.
\<close>

theorem zip_validator_accepts:
  "(returned (ZipValidator_Validate t) \<longleftrightarrow>
      length (contents t) = 5 \<and> list_all py_isdigit_char (contents t))
   \<and> (list_all (\<lambda>c. c < 128) (contents t) \<longrightarrow>
        (returned (ZipValidator_Validate t) \<longleftrightarrow>
           length (contents t) = 5 \<and> list_all is_ascii_digit (contents t)))
   \<and> returned (ZipValidator_Validate (field_with (ascii ''12345'')))
   \<and> \<not> returned (ZipValidator_Validate (field_with (ascii ''1234'')))
   \<and> \<not> returned (ZipValidator_Validate (field_with (ascii ''123456'')))
   \<and> \<not> returned (ZipValidator_Validate (field_with (ascii ''1234a'')))"
proof -
  have ascii_only: "list_all (\<lambda>c. c < 128) (contents t) \<longrightarrow>
      (returned (ZipValidator_Validate t) \<longleftrightarrow>
         length (contents t) = 5 \<and> list_all is_ascii_digit (contents t))"
    by (simp add: zip_valid_iff ascii_isdigit_all)
  show ?thesis
    by (intro conjI) (fact zip_valid_iff ascii_only zip_examples)+
qed

theorem zip_validator_accepts_witness:
  "list_all (\<lambda>c. c < 128) (contents (field_with (ascii ''1234a'')))
   \<and> length (contents (field_with (ascii ''1234a''))) = 5
   \<and> \<not> list_all is_ascii_digit (contents (field_with (ascii ''1234a'')))
   \<and> \<not> returned (ZipValidator_Validate (field_with (ascii ''1234a'')))"
  using zip_validator_accepts [of "field_with (ascii ''1234a'')"]
  by (simp add: field_with_def ascii_def ascii_isdigit_char is_ascii_digit_def)

text \<open>
  C6, as the claim states it, fails: \<open>str.isdigit\<close> is not restricted to ASCII. The
  five characters \<open>1234\<close> followed by U+00B2 (superscript two) are accepted, although
  the last one is not an ASCII digit.
\<close>

theorem zip_validator_accepts_superscript:
  "returned (ZipValidator_Validate (field_with (ascii ''1234'' @ [0xB2])))
   \<and> length (ascii ''1234'' @ [0xB2]) = 5
   \<and> \<not> is_ascii_digit 0xB2"
proof -
  have digit: "py_isdigit_char 0xB2"
    by (simp add: py_isdigit_char_def other_digit_ranges_def)
  show ?thesis
    by (simp add: zip_valid_iff field_with_def ascii_def ascii_isdigit_char digit)
       (simp add: is_ascii_digit_def)
qed

section \<open>What a failed validation does to the field\<close>

text \<open>
  C9, as the code has it. When a numeric validator refuses a text, the field gets the
  pink background and the focus. The next change of the field's content, to any text
  whatever, gives the field its normal background again; nothing is validated then.
  The postal-code validator does none of this: it leaves the field as it is, whether
  it accepts or refuses, and a change of content changes the content only.
\<close>

theorem number_validator_marks_and_clears:
  "(\<not> returned (NumberValidator_Validate v t) \<longrightarrow>
      background (ctrl (NumberValidator_Validate v t)) = Pink
      \<and> has_focus (ctrl (NumberValidator_Validate v t)))
   \<and> background (text_changed (Number v) new (ctrl (NumberValidator_Validate v t))) =
       SYS_COLOUR_WINDOW
   \<and> text_changed (Number v) new t = t\<lparr>contents := new, background := SYS_COLOUR_WINDOW\<rparr>
   \<and> ctrl (ZipValidator_Validate t) = t
   \<and> text_changed Zip new t = t\<lparr>contents := new\<rparr>"
proof -
  have marks: "\<not> returned (NumberValidator_Validate v t) \<longrightarrow>
      background (ctrl (NumberValidator_Validate v t)) = Pink
      \<and> has_focus (ctrl (NumberValidator_Validate v t))"
    using number_failure_marks by blast
  have clears: "background (text_changed (Number v) new (ctrl (NumberValidator_Validate v t))) =
      SYS_COLOUR_WINDOW"
    "text_changed (Number v) new t = t\<lparr>contents := new, background := SYS_COLOUR_WINDOW\<rparr>"
    by (simp_all add: colorchange_def)
  have zip: "ctrl (ZipValidator_Validate t) = t" "text_changed Zip new t = t\<lparr>contents := new\<rparr>"
    by (simp_all add: ZipValidator_Validate_def Let_def)
  show ?thesis
    by (intro conjI) (fact marks clears zip)+
qed

theorem number_validator_marks_and_clears_witness:
  "\<not> returned (NumberValidator_Validate LatValidator (field_with (ascii ''abc'')))
   \<and> background (ctrl (NumberValidator_Validate LatValidator (field_with (ascii ''abc'')))) = Pink
   \<and> has_focus (ctrl (NumberValidator_Validate LatValidator (field_with (ascii ''abc''))))
   \<and> background (text_changed (Number LatValidator) (ascii ''abcd'')
        (ctrl (NumberValidator_Validate LatValidator (field_with (ascii ''abc''))))) =
       SYS_COLOUR_WINDOW"
  using number_validator_marks_and_clears
    [of LatValidator "field_with (ascii ''abc'')" "ascii ''abcd''"] latitude_abc
  by simp

text \<open>
  C9, as the claim states it, fails for the postal-code validator: refusing \<open>1234\<close>, it
  leaves the background as it was and does not move the focus to the field.
\<close>

theorem zip_validator_marks_nothing:
  "\<not> returned (Validate Zip (field_with (ascii ''1234'')))
   \<and> background (ctrl (Validate Zip (field_with (ascii ''1234'')))) = SYS_COLOUR_WINDOW
   \<and> \<not> has_focus (ctrl (Validate Zip (field_with (ascii ''1234''))))
   \<and> message_boxes (Validate Zip (field_with (ascii ''1234''))) = [ascii ''Invalid ZIP code'']"
  by (simp add: ZipValidator_Validate_def field_with_def ascii_def Let_def)


section \<open>Properties of the dependent selectors\<close>

lemma index_of_None: "index_of x xs = None \<longleftrightarrow> x \<notin> set xs"
  by (induction xs) auto

lemma index_of_Some: "index_of x xs = Some i \<Longrightarrow> i < length xs \<and> xs ! i = x"
  by (induction xs arbitrary: i) (auto split: if_splits)

lemma GetStringSelection_SetStringSelection:
  "GetStringSelection (SetStringSelection s (SetItems xs c)) = (if s \<in> set xs then s else [])"
proof (cases "index_of s xs")
  case None
  moreover from None have "s \<notin> set xs" by (simp add: index_of_None)
  ultimately show ?thesis
    by (simp add: GetStringSelection_def SetStringSelection_def SetItems_def)
next
  case (Some i)
  then have "i < length xs \<and> xs ! i = s" by (rule index_of_Some)
  moreover from Some have "s \<in> set xs" using index_of_None [of s xs] by auto
  ultimately show ?thesis
    using Some by (simp add: GetStringSelection_def SetStringSelection_def SetItems_def)
qed

lemma items_SetStringSelection: "items (SetStringSelection s c) = items c"
  by (simp add: SetStringSelection_def split: option.splits)

text \<open>The loop that fills the county control appends the matching rows' names, in
  table order, and selects nothing.\<close>

lemma fill_counties:
  "fold (\<lambda>x c. if row_prov x = p then Append (row_county x) c else c) rows c0 =
     c0\<lparr>items := items c0 @ map row_county (filter (\<lambda>x. row_prov x = p) rows)\<rparr>"
  by (induction rows arbitrary: c0) (simp_all add: Append_def)

lemma state_selected_known_country:
  assumes "STATES (GetStringSelection country_ctrl) = Some states"
  shows "\<exists>c'. state_selected STATES conf_state country_ctrl state_ctrl = Inr c'
            \<and> items c' = states
            \<and> selection c' =
                (case conf_state of
                   None \<Rightarrow> None
                 | Some prev \<Rightarrow> if prev = [] then None else index_of prev states)
            \<and> GetStringSelection c' =
                (case conf_state of
                   None \<Rightarrow> []
                 | Some prev \<Rightarrow> if prev \<in> set states then prev else [])"
proof (cases conf_state)
  case None
  then show ?thesis
    using assms by (simp add: state_selected_def SetItems_def GetStringSelection_def)
next
  case (Some prev)
  show ?thesis
  proof (cases "prev \<noteq> [] \<and> prev \<in> set states")
    case True
    then obtain i where i: "index_of prev states = Some i"
      using index_of_None [of prev states] by auto
    have "state_selected STATES conf_state country_ctrl state_ctrl =
        Inr (SetStringSelection prev (SetItems states state_ctrl))"
      using assms Some True by (simp add: state_selected_def)
    moreover have "selection (SetStringSelection prev (SetItems states state_ctrl)) = Some i"
      using i by (simp add: SetStringSelection_def SetItems_def)
    ultimately show ?thesis
      using Some True i
      by (simp add: items_SetStringSelection GetStringSelection_SetStringSelection)
         (simp add: SetItems_def)
  next
    case False
    then have none: "prev \<noteq> [] \<Longrightarrow> index_of prev states = None"
      by (simp add: index_of_None)
    have "state_selected STATES conf_state country_ctrl state_ctrl =
        Inr (SetItems states state_ctrl)"
      using assms Some False by (auto simp: state_selected_def)
    then show ?thesis
      using Some False none
      by (auto simp: SetItems_def GetStringSelection_def)
  qed
qed

lemma selected_province_result:
  "selected_province CA_PROVINCES CA_COUNTIES chosenprov s =
     (case map row_county (filter (\<lambda>x. row_prov x = chosenprov) CA_COUNTIES) of
        [] \<Rightarrow> Inl IndexError
      | first # others \<Rightarrow>
          Inr (selected_county CA_COUNTIES (PyStr first)
                 ((case List.find (\<lambda>p. fst p = chosenprov) CA_PROVINCES of
                     None \<Rightarrow> s
                   | Some p \<Rightarrow> set_int_province (snd p) s)
                  \<lparr>countychoice :=
                     \<lparr>items = first # others, selection = None\<rparr>\<rparr>)))"
  by (simp add: selected_province_def fill_counties Clear_def Let_def split: list.splits)

lemma selected_province_empty:
  "filter (\<lambda>x. row_prov x = chosenprov) CA_COUNTIES = [] \<Longrightarrow>
     selected_province CA_PROVINCES CA_COUNTIES chosenprov s = Inl IndexError"
  by (simp add: selected_province_result)

lemma selected_county_fields:
  "countychoice (selected_county rows name s) = countychoice s"
  "ca_county_id (selected_county rows name s) =
     Some (case List.find (\<lambda>row. PyStr (row_county row) = name) rows of
             None \<Rightarrow> 0 | Some row \<Rightarrow> row_cid row)"
  "conf_county (selected_county rows name s) =
     Some (str_int (case List.find (\<lambda>row. PyStr (row_county row) = name) rows of
                      None \<Rightarrow> 0 | Some row \<Rightarrow> row_cid row))"
  by (simp_all add: selected_county_def set_int_county_def Let_def)

text \<open>
  C7, as the code has it. RepeaterBook: when the selected country is a key of
  \<open>STATES\<close>, the state control gets exactly the list stored under it, in its order, and
  the persisted state is selected if it is not empty and is among the new states;
  otherwise nothing is selected, the first entry included. RadioReference: when at
  least one row of \<open>CA_COUNTIES\<close> has the chosen province, the county control gets
  exactly the county names of those rows, in table order, with nothing selected, and
  the county id that is kept and persisted is the one found for the first entry of
  that list, whatever county was persisted before.
\<close>

theorem selectors_reload_children:
  "(STATES (GetStringSelection country_ctrl) = Some states \<longrightarrow>
      (\<exists>c'. state_selected STATES conf_state country_ctrl state_ctrl = Inr c'
           \<and> items c' = states
           \<and> selection c' =
               (case conf_state of
                  None \<Rightarrow> None
                | Some prev \<Rightarrow> if prev = [] then None else index_of prev states)
           \<and> GetStringSelection c' =
               (case conf_state of
                  None \<Rightarrow> []
                | Some prev \<Rightarrow> if prev \<in> set states then prev else [])))
   \<and> (map row_county (filter (\<lambda>x. row_prov x = chosenprov) CA_COUNTIES) = first # others \<longrightarrow>
        (\<exists>s'. selected_province CA_PROVINCES CA_COUNTIES chosenprov s = Inr s'
             \<and> countychoice s' = \<lparr>items = first # others, selection = None\<rparr>
             \<and> ca_county_id s' =
                 Some (case List.find (\<lambda>row. row_county row = first) CA_COUNTIES of
                         None \<Rightarrow> 0 | Some row \<Rightarrow> row_cid row)
             \<and> conf_county s' = map_option str_int (ca_county_id s')
             \<and> map_sum id ca_county_id
                 (selected_province CA_PROVINCES CA_COUNTIES chosenprov
                    (s\<lparr>conf_county := persisted\<rparr>)) = Inr (ca_county_id s')))"
proof (intro conjI impI)
  assume "STATES (GetStringSelection country_ctrl) = Some states"
  then show "\<exists>c'. state_selected STATES conf_state country_ctrl state_ctrl = Inr c'
      \<and> items c' = states
      \<and> selection c' =
          (case conf_state of
             None \<Rightarrow> None
           | Some prev \<Rightarrow> if prev = [] then None else index_of prev states)
      \<and> GetStringSelection c' =
          (case conf_state of
             None \<Rightarrow> []
           | Some prev \<Rightarrow> if prev \<in> set states then prev else [])"
    by (rule state_selected_known_country)
next
  assume rows: "map row_county (filter (\<lambda>x. row_prov x = chosenprov) CA_COUNTIES) = first # others"
  show "\<exists>s'. selected_province CA_PROVINCES CA_COUNTIES chosenprov s = Inr s'
      \<and> countychoice s' = \<lparr>items = first # others, selection = None\<rparr>
      \<and> ca_county_id s' =
          Some (case List.find (\<lambda>row. row_county row = first) CA_COUNTIES of
                  None \<Rightarrow> 0 | Some row \<Rightarrow> row_cid row)
      \<and> conf_county s' = map_option str_int (ca_county_id s')
      \<and> map_sum id ca_county_id
          (selected_province CA_PROVINCES CA_COUNTIES chosenprov
             (s\<lparr>conf_county := persisted\<rparr>)) = Inr (ca_county_id s')"
    by (simp add: selected_province_result rows selected_county_fields)
qed

theorem selectors_reload_children_witness:
  "sample_STATES (GetStringSelection canada_selected) = Some [ascii ''Alberta'', ascii ''Ontario'']
   \<and> state_selected sample_STATES (Some (ascii ''Ontario'')) canada_selected (choice_of []) =
       Inr (choice_at [ascii ''Alberta'', ascii ''Ontario''] 1)
   \<and> map row_county (filter (\<lambda>x. row_prov x = ascii ''ON'') sample_COUNTIES) =
       [ascii ''Algoma'', ascii ''Brant'']
   \<and> map_sum id ca_county_id
       (selected_province sample_PROVINCES sample_COUNTIES (ascii ''ON'') fresh_rr_dialog) =
       Inr (Some 10)"
proof -
  have key: "sample_STATES (GetStringSelection canada_selected) =
      Some [ascii ''Alberta'', ascii ''Ontario'']"
    by (simp add: sample_STATES_def canada_selected_def choice_at_def GetStringSelection_def
          ascii_def)
  have rows: "map row_county (filter (\<lambda>x. row_prov x = ascii ''ON'') sample_COUNTIES) =
      [ascii ''Algoma'', ascii ''Brant'']"
    by (simp add: sample_COUNTIES_def ascii_def)
  have picked: "index_of (ascii ''Ontario'') [ascii ''Alberta'', ascii ''Ontario''] = Some 1"
    by (simp add: ascii_def)
  have first: "List.find (\<lambda>row. row_county row = ascii ''Algoma'') sample_COUNTIES =
      Some \<lparr>row_0 = 9, row_prov = ascii ''ON'', row_cid = 10, row_county = ascii ''Algoma''\<rparr>"
    by (simp add: sample_COUNTIES_def)
  show ?thesis
    using selectors_reload_children
      [where STATES = sample_STATES and country_ctrl = canada_selected
         and states = "[ascii ''Alberta'', ascii ''Ontario'']"
         and conf_state = "Some (ascii ''Ontario'')" and state_ctrl = "choice_of []"
         and chosenprov = "ascii ''ON''" and CA_COUNTIES = sample_COUNTIES
         and first = "ascii ''Algoma''" and others = "[ascii ''Brant'']"
         and CA_PROVINCES = sample_PROVINCES and s = fresh_rr_dialog
         and persisted = "conf_county fresh_rr_dialog"]
      key rows picked first
    by (auto simp: choice_at_def ascii_nonempty)
qed

text \<open>
  C7, as the claim states it, fails on both selectors. RepeaterBook: with the persisted
  state \<open>Texas\<close>, which is not a state of Canada, selecting Canada leaves the state
  control with nothing selected, not with its first entry \<open>Alberta\<close>. RadioReference:
  with the county \<open>Brant\<close> (id 11) persisted, choosing its province \<open>ON\<close> makes the
  county id 10, that of the first entry \<open>Algoma\<close>, although \<open>Brant\<close> is among the new
  choices.
\<close>

theorem selectors_default_child:
  "state_selected sample_STATES (Some (ascii ''Texas'')) canada_selected (choice_of []) =
     Inr (choice_of [ascii ''Alberta'', ascii ''Ontario''])
   \<and> selection (choice_of [ascii ''Alberta'', ascii ''Ontario'']) = None
   \<and> map_sum id countychoice
       (selected_province sample_PROVINCES sample_COUNTIES (ascii ''ON'')
          (fresh_rr_dialog\<lparr>conf_county := Some (ascii ''11'')\<rparr>)) =
       Inr (choice_of [ascii ''Algoma'', ascii ''Brant''])
   \<and> map_sum id ca_county_id
       (selected_province sample_PROVINCES sample_COUNTIES (ascii ''ON'')
          (fresh_rr_dialog\<lparr>conf_county := Some (ascii ''11'')\<rparr>)) =
       Inr (Some 10)"
proof -
  have rb: "state_selected sample_STATES (Some (ascii ''Texas'')) canada_selected (choice_of []) =
      Inr (choice_of [ascii ''Alberta'', ascii ''Ontario''])"
    by (simp add: state_selected_def sample_STATES_def canada_selected_def choice_at_def
          choice_of_def GetStringSelection_def SetItems_def ascii_def)
  have rows: "map row_county (filter (\<lambda>x. row_prov x = ascii ''ON'') sample_COUNTIES) =
      [ascii ''Algoma'', ascii ''Brant'']"
    by (simp add: sample_COUNTIES_def ascii_def)
  have first: "List.find (\<lambda>row. row_county row = ascii ''Algoma'') sample_COUNTIES =
      Some \<lparr>row_0 = 9, row_prov = ascii ''ON'', row_cid = 10, row_county = ascii ''Algoma''\<rparr>"
    by (simp add: sample_COUNTIES_def)
  have rr: "map_sum id countychoice
       (selected_province sample_PROVINCES sample_COUNTIES (ascii ''ON'')
          (fresh_rr_dialog\<lparr>conf_county := Some (ascii ''11'')\<rparr>)) =
       Inr (choice_of [ascii ''Algoma'', ascii ''Brant''])"
    "map_sum id ca_county_id
       (selected_province sample_PROVINCES sample_COUNTIES (ascii ''ON'')
          (fresh_rr_dialog\<lparr>conf_county := Some (ascii ''11'')\<rparr>)) =
       Inr (Some 10)"
    by (simp_all add: selected_province_result rows selected_county_fields first choice_of_def)
  have none: "selection (choice_of [ascii ''Alberta'', ascii ''Ontario'']) = None"
    by (simp add: choice_of_def)
  show ?thesis
    by (intro conjI) (fact rb none rr)+
qed

text \<open>
  C8 at failing inputs. Before any login the province control holds the placeholder,
  and the tables are empty: choosing the placeholder runs \<open>_selected_province\<close>, whose
  \<open>GetItems()[0]\<close> raises \<open>IndexError\<close> on the empty county list. The same happens for
  a province of the table that has no county row (here \<open>AB\<close>). And \<open>populateprov\<close>
  after a refresh that left \<open>CA_PROVINCES\<close> empty raises \<open>AttributeError\<close>, because
  \<open>getconfdefaults\<close> assigns \<open>default_prov\<close> only inside its loop.
\<close>

theorem empty_choices_raise:
  "selected_province [] [] (ascii ''Log in First'') fresh_rr_dialog = Inl IndexError
   \<and> selected_province sample_PROVINCES sample_COUNTIES (ascii ''AB'') fresh_rr_dialog =
       Inl IndexError
   \<and> populateprov [] [] fresh_rr_dialog = Inl AttributeError"
proof -
  have placeholder: "selected_province [] [] (ascii ''Log in First'') fresh_rr_dialog =
      Inl IndexError"
    by (simp add: selected_province_empty)
  have no_rows: "selected_province sample_PROVINCES sample_COUNTIES (ascii ''AB'')
      fresh_rr_dialog = Inl IndexError"
    by (rule selected_province_empty) (simp add: sample_COUNTIES_def ascii_def)
  have no_provinces: "populateprov [] [] fresh_rr_dialog = Inl AttributeError"
    by (simp add: populateprov_def getconfdefaults_def fresh_rr_dialog_def Let_def)
  show ?thesis
    by (intro conjI) (fact placeholder no_rows no_provinces)+
qed


end
